theory Spec2Isabelle
  imports Main "HOL-Library.Word"
begin

unbundle bit_operations_syntax

section \<open>HTTP authorization extractors of \<^verbatim>\<open>fastapi/security/http.py\<close>\<close>

text \<open>
  The module reads the \<^verbatim>\<open>Authorization\<close> header of a request, splits it into a scheme
  and a parameter and, per extractor class, returns a credential object, returns
  \<^verbatim>\<open>None\<close>, or raises an \<^verbatim>\<open>HTTPException\<close>.

  Text is modelled as \<open>string\<close>: Starlette hands header values over decoded as Latin-1,
  one character per byte, which is what the 8-bit \<open>char\<close> holds. Python's \<^verbatim>\<open>bytes\<close> are
  lists of 8-bit words. A call returns \<open>Inl e\<close> when the source raises \<open>e\<close>, \<open>Inr None\<close>
  when it returns \<^verbatim>\<open>None\<close> and \<open>Inr (Some c)\<close> when it returns the credential \<open>c\<close>.
\<close>

subsection \<open>Data model\<close>

type_synonym byte = "8 word"

record HTTPBasicCredentials =
  username :: string
  password :: string

record HTTPAuthorizationCredentials =
  scheme :: string
  credentials :: string

record HTTPClientCredentials =
  client_id :: string
  client_secret :: string

text \<open>
  \<^verbatim>\<open>HTTPException(status_code, detail, headers=None)\<close>: the header dictionary, when one
  is given, is kept as an association list.
\<close>

record HTTPException =
  status_code :: nat
  detail :: string
  headers :: "(string \<times> string) list option"

definition HTTP_401_UNAUTHORIZED :: nat where
  "HTTP_401_UNAUTHORIZED = 401"

definition HTTP_403_FORBIDDEN :: nat where
  "HTTP_403_FORBIDDEN = 403"

text \<open>
  The attributes the constructors store on an extractor: the scheme of its OpenAPI model,
  its display name, the realm (\<^verbatim>\<open>Optional[str]\<close>) and the \<^verbatim>\<open>auto_error\<close> flag.
\<close>

record extractor =
  model_scheme :: string
  scheme_name :: string
  realm :: "string option"
  auto_error :: bool

text \<open>The exceptions the decoding of a Basic parameter can raise.\<close>

datatype py_error = ValueError | BinasciiError | UnicodeDecodeError

subsection \<open>Python built-ins used by the module\<close>

text \<open>Truthiness of an \<^verbatim>\<open>Optional[str]\<close>: \<^verbatim>\<open>None\<close> and the empty string are false.\<close>

definition truthy :: "string option \<Rightarrow> bool" where
  "truthy v = (case v of None \<Rightarrow> False | Some s \<Rightarrow> s \<noteq> [])"

text \<open>
  \<^verbatim>\<open>str.lower()\<close> on Latin-1 text: the letters A to Z and the accented capitals
  U+00C0 to U+00DE (the multiplication sign U+00D7 apart) move up by 32, every other
  character stays.
\<close>

definition lower_char :: "char \<Rightarrow> char" where
  "lower_char c =
     (let n = (of_char c :: nat) in
      if (65 \<le> n \<and> n \<le> 90) \<or> (192 \<le> n \<and> n \<le> 222 \<and> n \<noteq> 215)
      then char_of (n + 32) else c)"

definition lower :: "string \<Rightarrow> string" where
  "lower s = map lower_char s"

text \<open>
  \<^verbatim>\<open>s.partition(sep)\<close> for a one-character separator: the text before the first
  occurrence, the separator, the text after it; \<^verbatim>\<open>(s, "", "")\<close> when \<open>sep\<close> does not occur.
\<close>

definition str_partition :: "char \<Rightarrow> string \<Rightarrow> string \<times> string \<times> string" where
  "str_partition sep s =
     (if sep \<in> set s
      then (takeWhile (\<lambda>c. c \<noteq> sep) s, [sep], tl (dropWhile (\<lambda>c. c \<noteq> sep) s))
      else (s, [], []))"

text \<open>
  \<^verbatim>\<open>bytes.decode("ascii")\<close>: every byte must be below 128, else \<^verbatim>\<open>UnicodeDecodeError\<close>.
\<close>

definition decode_ascii :: "byte list \<Rightarrow> py_error + string" where
  "decode_ascii bs =
     (if list_all (\<lambda>b. b < 128) bs then Inr (map (\<lambda>b. char_of (unat b)) bs)
      else Inl UnicodeDecodeError)"

subsection \<open>Base64 decoding: \<^verbatim>\<open>base64.b64decode\<close>\<close>

text \<open>
  \<^verbatim>\<open>table_a2b_base64\<close> of CPython's \<^verbatim>\<open>binascii\<close>: the value of a character of the
  standard alphabet \<^verbatim>\<open>A-Z a-z 0-9 + /\<close>; \<open>None\<close> for every other character.
\<close>

definition table_a2b_base64 :: "char \<Rightarrow> byte option" where
  "table_a2b_base64 c =
     (let n = (of_char c :: nat) in
      if 65 \<le> n \<and> n \<le> 90 then Some (of_nat (n - 65))
      else if 97 \<le> n \<and> n \<le> 122 then Some (of_nat (n - 71))
      else if 48 \<le> n \<and> n \<le> 57 then Some (of_nat (n + 4))
      else if n = 43 then Some 62
      else if n = 47 then Some 63
      else None)"

text \<open>
  The loop of \<^verbatim>\<open>binascii.a2b_base64\<close> in its default, non-strict mode, as
  \<^verbatim>\<open>b64decode(s)\<close> calls it. The state is the position in the current group of four
  characters (\<open>quad_pos\<close>), the bits left over from the previous character (\<open>leftchar\<close>)
  and the number of padding characters seen in a row (\<open>pads\<close>). A character outside the
  alphabet is skipped. A padding character ends the decoding once the group is complete
  with it, and is skipped otherwise. Input that ends inside a group raises
  \<^verbatim>\<open>binascii.Error\<close>, here \<open>None\<close>. The bytes written so far are the result's prefix.
\<close>

fun a2b_base64_loop :: "nat \<Rightarrow> byte \<Rightarrow> nat \<Rightarrow> string \<Rightarrow> byte list option" where
  "a2b_base64_loop quad_pos leftchar pads [] =
     (if quad_pos \<noteq> 0 then None else Some [])"
| "a2b_base64_loop quad_pos leftchar pads (c # cs) =
     (if c = CHR ''='' then
        (if quad_pos \<ge> 2 then
           (if quad_pos + (pads + 1) \<ge> 4 then Some []
            else a2b_base64_loop quad_pos leftchar (pads + 1) cs)
         else a2b_base64_loop quad_pos leftchar pads cs)
      else
        (case table_a2b_base64 c of
           None \<Rightarrow> a2b_base64_loop quad_pos leftchar pads cs
         | Some this_ch \<Rightarrow>
             (if quad_pos = 0 then
                a2b_base64_loop 1 this_ch 0 cs
              else if quad_pos = 1 then
                map_option ((#) (push_bit 2 leftchar OR drop_bit 4 this_ch))
                  (a2b_base64_loop 2 (this_ch AND 0x0f) 0 cs)
              else if quad_pos = 2 then
                map_option ((#) (push_bit 4 leftchar OR drop_bit 2 this_ch))
                  (a2b_base64_loop 3 (this_ch AND 0x03) 0 cs)
              else
                map_option ((#) (push_bit 6 leftchar OR this_ch))
                  (a2b_base64_loop 0 0 0 cs))))"

definition a2b_base64 :: "string \<Rightarrow> py_error + byte list" where
  "a2b_base64 s =
     (case a2b_base64_loop 0 0 0 s of None \<Rightarrow> Inl BinasciiError | Some bs \<Rightarrow> Inr bs)"

text \<open>
  \<^verbatim>\<open>b64decode(s)\<close> on a \<^verbatim>\<open>str\<close>: the text is first encoded as ASCII, which raises
  \<^verbatim>\<open>ValueError\<close> on a character above 127, then handed to \<^verbatim>\<open>a2b_base64\<close>.
\<close>

definition b64decode :: "string \<Rightarrow> py_error + byte list" where
  "b64decode s =
     (if list_all (\<lambda>c. (of_char c :: nat) < 128) s then a2b_base64 s else Inl ValueError)"

subsection \<open>Base64 encoding, for the round trip\<close>

text \<open>
  The encoder the round-trip property speaks of is not part of the module: it is the
  standard Base64 encoding of RFC 4648 with padding, as \<^verbatim>\<open>base64.b64encode\<close> computes it.
  \<open>table_b2a_base64\<close> is the alphabet: the values 0 to 25 are \<^verbatim>\<open>A-Z\<close>, 26 to 51 are
  \<^verbatim>\<open>a-z\<close>, 52 to 61 are \<^verbatim>\<open>0-9\<close>, 62 is \<^verbatim>\<open>+\<close> and 63 is \<^verbatim>\<open>/\<close>.
\<close>

definition table_b2a_base64 :: "byte \<Rightarrow> char" where
  "table_b2a_base64 x =
     (let n = unat x in
      if n < 26 then char_of (n + 65)
      else if n < 52 then char_of (n + 71)
      else if n < 62 then char_of (n - 4)
      else if n = 62 then CHR ''+''
      else CHR ''/'')"

fun b64encode :: "byte list \<Rightarrow> string" where
  "b64encode [] = []"
| "b64encode [a] =
     [table_b2a_base64 (drop_bit 2 a), table_b2a_base64 (push_bit 4 (a AND 3)),
      CHR ''='', CHR ''='']"
| "b64encode [a, b] =
     [table_b2a_base64 (drop_bit 2 a),
      table_b2a_base64 (push_bit 4 (a AND 3) OR drop_bit 4 b),
      table_b2a_base64 (push_bit 2 (b AND 15)), CHR ''='']"
| "b64encode (a # b # c # rest) =
     [table_b2a_base64 (drop_bit 2 a),
      table_b2a_base64 (push_bit 4 (a AND 3) OR drop_bit 4 b),
      table_b2a_base64 (push_bit 2 (b AND 15) OR drop_bit 6 c),
      table_b2a_base64 (c AND 63)] @ b64encode rest"

text \<open>
  The bytes of a text, one byte per character (Latin-1). On ASCII text this is also its
  ASCII and its UTF-8 encoding.
\<close>

definition encode_latin1 :: "string \<Rightarrow> byte list" where
  "encode_latin1 s = map of_char s"

text \<open>The text \<^verbatim>\<open>user + ":" + pass\<close>, encoded to bytes and then to Base64.\<close>

definition basic_token :: "string \<Rightarrow> string \<Rightarrow> string" where
  "basic_token user pass = b64encode (encode_latin1 (user @ '':'' @ pass))"

definition is_ascii :: "string \<Rightarrow> bool" where
  "is_ascii s = list_all (\<lambda>c. (of_char c :: nat) < 128) s"

subsection \<open>Splitting the header\<close>

text \<open>
  Modelled from the spec: the whitespace on which the header is split. The module
  \<^verbatim>\<open>fastapi.security.utils\<close> that holds the splitter is not among the sources, and the
  specification's section 4.1 speaks of whitespace without listing it; the ASCII
  whitespace characters (space, tab, line feed, vertical tab, form feed, carriage
  return) are taken.
\<close>

definition is_space :: "char \<Rightarrow> bool" where
  "is_space c = (c \<in> set [CHR '' '', CHR 0x09, CHR 0x0A, CHR 0x0B, CHR 0x0C, CHR 0x0D])"

text \<open>
  Modelled from the spec: \<^verbatim>\<open>get_authorization_scheme_param\<close> is imported from
  \<^verbatim>\<open>fastapi.security.utils\<close>, which is not among the sources. The specification's
  section 4.1 gives its contract: an absent or empty value yields two empty strings; the
  value is split on its first run of whitespace, the scheme being the text before the run
  and the parameter everything after it, embedded whitespace included; without whitespace
  the parameter is empty. It raises on no input.
\<close>

definition get_authorization_scheme_param :: "string option \<Rightarrow> string \<times> string" where
  "get_authorization_scheme_param authorization_header_value =
     (case authorization_header_value of
        None \<Rightarrow> ([], [])
      | Some v \<Rightarrow>
          (takeWhile (\<lambda>c. \<not> is_space c) v,
           dropWhile is_space (dropWhile (\<lambda>c. \<not> is_space c) v)))"

subsection \<open>The extractors\<close>

text \<open>
  A request is represented by what the extractors read of it: the value of
  \<^verbatim>\<open>request.headers.get("Authorization")\<close>, \<open>None\<close> when the header is absent.
  The source's local variables \<^verbatim>\<open>scheme\<close> and \<^verbatim>\<open>credentials\<close> are \<open>schm\<close> and \<open>cred\<close>
  here, the field names of the credential records being taken.
\<close>

definition HTTPBase_call ::
  "extractor \<Rightarrow> string option \<Rightarrow> HTTPException + HTTPAuthorizationCredentials option" where
  "HTTPBase_call self authorization =
     (case get_authorization_scheme_param authorization of
        (schm, cred) \<Rightarrow>
          if \<not> (truthy authorization \<and> schm \<noteq> [] \<and> cred \<noteq> []) then
            (if auto_error self then
               Inl \<lparr>status_code = HTTP_403_FORBIDDEN, detail = ''Not authenticated'',
                    headers = None\<rparr>
             else Inr None)
          else Inr (Some \<lparr>scheme = schm, credentials = cred\<rparr>))"

definition unauthorized_headers :: "extractor \<Rightarrow> (string \<times> string) list" where
  \<open>unauthorized_headers self =
     (if truthy (realm self)
      then [(''WWW-Authenticate'', ''Basic realm="'' @ the (realm self) @ ''"'')]
      else [(''WWW-Authenticate'', ''Basic'')])\<close>

definition invalid_user_credentials_exc :: "extractor \<Rightarrow> HTTPException" where
  "invalid_user_credentials_exc self =
     \<lparr>status_code = HTTP_401_UNAUTHORIZED, detail = ''Invalid authentication credentials'',
      headers = Some (unauthorized_headers self)\<rparr>"

text \<open>
  Lines 82 to 89 of \<^verbatim>\<open>get_http_basic_authorization_credentials\<close>: the \<^verbatim>\<open>try\<close> block
  decodes the parameter, its \<^verbatim>\<open>except\<close> clause catches \<^verbatim>\<open>ValueError\<close>,
  \<^verbatim>\<open>UnicodeDecodeError\<close> and \<^verbatim>\<open>binascii.Error\<close> alike, and the decoded text is
  partitioned at its first colon.
\<close>

definition decode_basic_param :: "extractor \<Rightarrow> string \<Rightarrow> HTTPException + (string \<times> string)" where
  "decode_basic_param self param =
     (case b64decode param of
        Inl e \<Rightarrow> Inl (invalid_user_credentials_exc self)
      | Inr raw \<Rightarrow>
          (case decode_ascii raw of
             Inl e \<Rightarrow> Inl (invalid_user_credentials_exc self)
           | Inr data \<Rightarrow>
               (case str_partition CHR '':'' data of
                  (first_credential, separator, second_credential) \<Rightarrow>
                    if separator = [] then Inl (invalid_user_credentials_exc self)
                    else Inr (first_credential, second_credential))))"

definition get_http_basic_authorization_credentials ::
  "extractor \<Rightarrow> string option \<Rightarrow> HTTPException + (string \<times> string) option" where
  "get_http_basic_authorization_credentials self authorization =
     (case get_authorization_scheme_param authorization of
        (schm, param) \<Rightarrow>
          if \<not> truthy authorization \<or> lower schm \<noteq> ''basic'' then
            (if auto_error self then
               Inl \<lparr>status_code = HTTP_401_UNAUTHORIZED, detail = ''Not authenticated'',
                    headers = Some (unauthorized_headers self)\<rparr>
             else Inr None)
          else
            (case decode_basic_param self param of
               Inl exc \<Rightarrow> Inl exc
             | Inr pair \<Rightarrow> Inr (Some pair)))"

definition HTTPBasic_call ::
  "extractor \<Rightarrow> string option \<Rightarrow> HTTPException + HTTPBasicCredentials option" where
  "HTTPBasic_call self authorization =
     (case get_http_basic_authorization_credentials self authorization of
        Inl exc \<Rightarrow> Inl exc
      | Inr None \<Rightarrow> Inr None
      | Inr (Some (user, pass)) \<Rightarrow>
          Inr (Some \<lparr>username = user, password = pass\<rparr>))"

definition HTTPBearer_call ::
  "extractor \<Rightarrow> string option \<Rightarrow> HTTPException + HTTPAuthorizationCredentials option" where
  "HTTPBearer_call self authorization =
     (case get_authorization_scheme_param authorization of
        (schm, cred) \<Rightarrow>
          if \<not> (truthy authorization \<and> schm \<noteq> [] \<and> cred \<noteq> []) then
            (if auto_error self then
               Inl \<lparr>status_code = HTTP_403_FORBIDDEN, detail = ''Not authenticated'',
                    headers = None\<rparr>
             else Inr None)
          else if lower schm \<noteq> ''bearer'' then
            (if auto_error self then
               Inl \<lparr>status_code = HTTP_403_FORBIDDEN,
                    detail = ''Invalid authentication credentials'', headers = None\<rparr>
             else Inr None)
          else Inr (Some \<lparr>scheme = schm, credentials = cred\<rparr>))"

definition HTTPBasicClientCredentials_call ::
  "extractor \<Rightarrow> string option \<Rightarrow> HTTPException + HTTPClientCredentials option" where
  "HTTPBasicClientCredentials_call self authorization =
     (case get_http_basic_authorization_credentials self authorization of
        Inl exc \<Rightarrow> Inl exc
      | Inr None \<Rightarrow> Inr None
      | Inr (Some (cid, secret)) \<Rightarrow>
          Inr (Some \<lparr>client_id = cid, client_secret = secret\<rparr>))"

definition HTTPDigest_call ::
  "extractor \<Rightarrow> string option \<Rightarrow> HTTPException + HTTPAuthorizationCredentials option" where
  "HTTPDigest_call self authorization =
     (case get_authorization_scheme_param authorization of
        (schm, cred) \<Rightarrow>
          if \<not> (truthy authorization \<and> schm \<noteq> [] \<and> cred \<noteq> []) then
            (if auto_error self then
               Inl \<lparr>status_code = HTTP_403_FORBIDDEN, detail = ''Not authenticated'',
                    headers = None\<rparr>
             else Inr None)
          else if lower schm \<noteq> ''digest'' then
            Inl \<lparr>status_code = HTTP_403_FORBIDDEN,
                 detail = ''Invalid authentication credentials'', headers = None\<rparr>
          else Inr (Some \<lparr>scheme = schm, credentials = cred\<rparr>))"

section \<open>Properties\<close>

subsection \<open>The splitter and the presence test\<close>

lemma split_absent: "get_authorization_scheme_param None = ([], [])"
  by (simp add: get_authorization_scheme_param_def)

lemma split_scheme_truthy:
  assumes "get_authorization_scheme_param authorization = (schm, param)" and "schm \<noteq> []"
  shows "truthy authorization"
proof (cases authorization)
  case None
  with assms show ?thesis by (simp add: split_absent)
next
  case (Some v)
  with assms have "takeWhile (\<lambda>c. \<not> is_space c) v \<noteq> []"
    by (auto simp: get_authorization_scheme_param_def)
  then have "v \<noteq> []" by auto
  with Some show ?thesis by (simp add: truthy_def)
qed

lemma lower_basic_truthy:
  assumes "get_authorization_scheme_param authorization = (schm, param)"
    and "lower schm = ''basic''"
  shows "truthy authorization"
proof -
  from assms(2) have "schm \<noteq> []" by (auto simp: lower_def)
  with assms(1) show ?thesis by (rule split_scheme_truthy)
qed

lemma split_Digest_abc:
  "get_authorization_scheme_param (Some ''Digest abc'') = (''Digest'', ''abc'')"
  by code_simp

lemma lower_Digest: "lower ''Digest'' = ''digest''"
  by code_simp

lemma split_Bearer_testtoken:
  "get_authorization_scheme_param (Some ''Bearer testtoken'') = (''Bearer'', ''testtoken'')"
  by code_simp

lemma lower_Bearer: "lower ''Bearer'' = ''bearer''"
  by code_simp

subsection \<open>Requests without an Authorization header\<close>

text \<open>
  Claim C1, as stated, fails for the Basic family: with \<^verbatim>\<open>auto_error=True\<close> and no
  header, \<^verbatim>\<open>HTTPBasic\<close> raises status 401 with the Basic challenge, not status 403.
\<close>

theorem no_header_auto_error_on_basic_counterexample:
  "HTTPBasic_call \<lparr>model_scheme = ''basic'', scheme_name = ''HTTPBasic'', realm = None,
       auto_error = True\<rparr> None
     = Inl \<lparr>status_code = 401, detail = ''Not authenticated'',
            headers = Some [(''WWW-Authenticate'', ''Basic'')]\<rparr>
   \<and> HTTPBasic_call \<lparr>model_scheme = ''basic'', scheme_name = ''HTTPBasic'', realm = None,
       auto_error = True\<rparr> None
     \<noteq> Inl \<lparr>status_code = HTTP_403_FORBIDDEN, detail = ''Not authenticated'',
            headers = None\<rparr>"
  by (simp add: HTTPBasic_call_def get_http_basic_authorization_credentials_def split_absent
      truthy_def unauthorized_headers_def HTTP_401_UNAUTHORIZED_def HTTP_403_FORBIDDEN_def)

text \<open>
  Claim C1, amended: on a request without an Authorization header, an extractor with
  \<^verbatim>\<open>auto_error=True\<close> raises. Bearer, Digest and the base extractor raise status 403 with
  detail "Not authenticated" and no headers; Basic and BasicClientCredentials raise status
  401 with detail "Not authenticated" and the \<^verbatim>\<open>WWW-Authenticate\<close> Basic challenge.
\<close>

theorem no_header_auto_error_on:
  assumes "auto_error self"
  shows "HTTPBearer_call self None
       = Inl \<lparr>status_code = HTTP_403_FORBIDDEN, detail = ''Not authenticated'', headers = None\<rparr>
     \<and> HTTPDigest_call self None
       = Inl \<lparr>status_code = HTTP_403_FORBIDDEN, detail = ''Not authenticated'', headers = None\<rparr>
     \<and> HTTPBase_call self None
       = Inl \<lparr>status_code = HTTP_403_FORBIDDEN, detail = ''Not authenticated'', headers = None\<rparr>
     \<and> HTTPBasic_call self None
       = Inl \<lparr>status_code = HTTP_401_UNAUTHORIZED, detail = ''Not authenticated'',
              headers = Some (unauthorized_headers self)\<rparr>
     \<and> HTTPBasicClientCredentials_call self None
       = Inl \<lparr>status_code = HTTP_401_UNAUTHORIZED, detail = ''Not authenticated'',
              headers = Some (unauthorized_headers self)\<rparr>"
  using assms
  by (simp add: HTTPBase_call_def HTTPBasic_call_def HTTPBasicClientCredentials_call_def
      HTTPBearer_call_def HTTPDigest_call_def get_http_basic_authorization_credentials_def
      split_absent truthy_def)

theorem no_header_auto_error_on_witness:
  "HTTPBearer_call \<lparr>model_scheme = ''bearer'', scheme_name = ''HTTPBearer'', realm = None,
       auto_error = True\<rparr> None
     = Inl \<lparr>status_code = 403, detail = ''Not authenticated'', headers = None\<rparr>
   \<and> HTTPBasicClientCredentials_call \<lparr>model_scheme = ''basic'',
       scheme_name = ''HTTPBasicClientCredentials'', realm = None, auto_error = True\<rparr> None
     = Inl \<lparr>status_code = 401, detail = ''Not authenticated'',
            headers = Some [(''WWW-Authenticate'', ''Basic'')]\<rparr>"
  using no_header_auto_error_on [of "\<lparr>model_scheme = ''bearer'', scheme_name = ''HTTPBearer'',
       realm = None, auto_error = True\<rparr>"]
    no_header_auto_error_on [of "\<lparr>model_scheme = ''basic'',
       scheme_name = ''HTTPBasicClientCredentials'', realm = None, auto_error = True\<rparr>"]
  by (simp add: HTTP_401_UNAUTHORIZED_def HTTP_403_FORBIDDEN_def unauthorized_headers_def
      truthy_def)

text \<open>
  Claim C6: on a request without an Authorization header, every extractor with
  \<^verbatim>\<open>auto_error=False\<close> returns \<^verbatim>\<open>None\<close> and raises nothing.
\<close>

theorem no_header_auto_error_off:
  assumes "\<not> auto_error self"
  shows "HTTPBasic_call self None = Inr None
     \<and> HTTPBasicClientCredentials_call self None = Inr None
     \<and> HTTPBearer_call self None = Inr None
     \<and> HTTPDigest_call self None = Inr None
     \<and> HTTPBase_call self None = Inr None"
  using assms
  by (simp add: HTTPBase_call_def HTTPBasic_call_def HTTPBasicClientCredentials_call_def
      HTTPBearer_call_def HTTPDigest_call_def get_http_basic_authorization_credentials_def
      split_absent truthy_def)

theorem no_header_auto_error_off_witness:
  "HTTPBasic_call \<lparr>model_scheme = ''basic'', scheme_name = ''HTTPBasic'',
       realm = Some ''users'', auto_error = False\<rparr> None = Inr None
   \<and> HTTPDigest_call \<lparr>model_scheme = ''digest'', scheme_name = ''HTTPDigest'',
       realm = None, auto_error = False\<rparr> None = Inr None"
  using no_header_auto_error_off [of "\<lparr>model_scheme = ''basic'', scheme_name = ''HTTPBasic'',
       realm = Some ''users'', auto_error = False\<rparr>"]
    no_header_auto_error_off [of "\<lparr>model_scheme = ''digest'', scheme_name = ''HTTPDigest'',
       realm = None, auto_error = False\<rparr>"]
  by simp

subsection \<open>Bearer, Digest and the base extractor\<close>

text \<open>
  Claim C3, as stated, fails: the scheme of the header \<^verbatim>\<open>Digest abc\<close> is \<^verbatim>\<open>digest\<close> once
  lowered, so the Digest extractor does not raise status 403 on it.
\<close>

theorem digest_abc_counterexample:
  "HTTPDigest_call \<lparr>model_scheme = ''digest'', scheme_name = ''HTTPDigest'', realm = None,
       auto_error = True\<rparr> (Some ''Digest abc'')
     \<noteq> Inl \<lparr>status_code = HTTP_403_FORBIDDEN, detail = ''Invalid authentication credentials'',
            headers = None\<rparr>"
  by (simp add: HTTPDigest_call_def split_Digest_abc lower_Digest truthy_def)

text \<open>
  Claim C3, amended: on the header \<^verbatim>\<open>Digest abc\<close> the Digest extractor succeeds and
  returns the credential with scheme \<^verbatim>\<open>Digest\<close> and credentials \<^verbatim>\<open>abc\<close>, whatever its
  \<^verbatim>\<open>auto_error\<close> setting.
\<close>

theorem digest_abc_accepted:
  "HTTPDigest_call self (Some ''Digest abc'')
     = Inr (Some \<lparr>scheme = ''Digest'', credentials = ''abc''\<rparr>)"
  by (simp add: HTTPDigest_call_def split_Digest_abc lower_Digest truthy_def)

theorem digest_abc_accepted_witness:
  "HTTPDigest_call \<lparr>model_scheme = ''digest'', scheme_name = ''HTTPDigest'', realm = None,
       auto_error = True\<rparr> (Some ''Digest abc'')
     = Inr (Some \<lparr>scheme = ''Digest'', credentials = ''abc''\<rparr>)
   \<and> HTTPDigest_call \<lparr>model_scheme = ''digest'', scheme_name = ''HTTPDigest'', realm = None,
       auto_error = False\<rparr> (Some ''Digest abc'')
     = Inr (Some \<lparr>scheme = ''Digest'', credentials = ''abc''\<rparr>)"
  using digest_abc_accepted [of "\<lparr>model_scheme = ''digest'', scheme_name = ''HTTPDigest'',
       realm = None, auto_error = True\<rparr>"]
    digest_abc_accepted [of "\<lparr>model_scheme = ''digest'', scheme_name = ''HTTPDigest'',
       realm = None, auto_error = False\<rparr>"]
  by simp

text \<open>
  Claim C4: when the header splits into a nonempty scheme and a nonempty parameter and the
  scheme, lowered, is not \<^verbatim>\<open>digest\<close>, the Digest extractor raises status 403 with detail
  "Invalid authentication credentials" whatever its \<^verbatim>\<open>auto_error\<close> setting. The Bearer
  extractor with \<^verbatim>\<open>auto_error=False\<close> returns \<^verbatim>\<open>None\<close> on a scheme that is not
  \<^verbatim>\<open>bearer\<close>.
\<close>

theorem digest_wrong_scheme_always_raises:
  assumes "get_authorization_scheme_param authorization = (schm, cred)"
    and "schm \<noteq> []" and "cred \<noteq> []"
  shows "(lower schm \<noteq> ''digest'' \<longrightarrow>
            HTTPDigest_call self authorization
              = Inl \<lparr>status_code = HTTP_403_FORBIDDEN,
                     detail = ''Invalid authentication credentials'', headers = None\<rparr>)
       \<and> (lower schm \<noteq> ''bearer'' \<and> \<not> auto_error self \<longrightarrow>
            HTTPBearer_call self authorization = Inr None)"
  using assms split_scheme_truthy [OF assms(1,2)]
  by (simp add: HTTPDigest_call_def HTTPBearer_call_def)

theorem digest_wrong_scheme_always_raises_witness:
  "HTTPDigest_call \<lparr>model_scheme = ''digest'', scheme_name = ''HTTPDigest'', realm = None,
       auto_error = False\<rparr> (Some ''Other invalidauthorization'')
     = Inl \<lparr>status_code = 403, detail = ''Invalid authentication credentials'', headers = None\<rparr>
   \<and> HTTPBearer_call \<lparr>model_scheme = ''bearer'', scheme_name = ''HTTPBearer'', realm = None,
       auto_error = False\<rparr> (Some ''Other invalidauthorization'') = Inr None"
proof -
  have h: "get_authorization_scheme_param (Some ''Other invalidauthorization'')
      = (''Other'', ''invalidauthorization'')"
    by code_simp
  have l: "lower ''Other'' = ''other''"
    by code_simp
  show ?thesis
    using digest_wrong_scheme_always_raises [OF h, of "\<lparr>model_scheme = ''digest'',
        scheme_name = ''HTTPDigest'', realm = None, auto_error = False\<rparr>"]
      digest_wrong_scheme_always_raises [OF h, of "\<lparr>model_scheme = ''bearer'',
        scheme_name = ''HTTPBearer'', realm = None, auto_error = False\<rparr>"] l
    by (simp add: HTTP_403_FORBIDDEN_def)
qed

text \<open>
  Claim C8: on the header \<^verbatim>\<open>Bearer testtoken\<close> the Bearer extractor succeeds and returns
  the credential with scheme \<^verbatim>\<open>Bearer\<close>, as supplied and not lowered, and credentials
  \<^verbatim>\<open>testtoken\<close>.
\<close>

theorem bearer_testtoken_accepted:
  "HTTPBearer_call self (Some ''Bearer testtoken'')
     = Inr (Some \<lparr>scheme = ''Bearer'', credentials = ''testtoken''\<rparr>)"
  by (simp add: HTTPBearer_call_def split_Bearer_testtoken lower_Bearer truthy_def)

theorem bearer_testtoken_accepted_witness:
  "HTTPBearer_call \<lparr>model_scheme = ''bearer'', scheme_name = ''HTTPBearer'', realm = None,
       auto_error = True\<rparr> (Some ''Bearer testtoken'')
     = Inr (Some \<lparr>scheme = ''Bearer'', credentials = ''testtoken''\<rparr>)"
  using bearer_testtoken_accepted [of "\<lparr>model_scheme = ''bearer'', scheme_name = ''HTTPBearer'',
       realm = None, auto_error = True\<rparr>"]
  by simp

text \<open>
  Claim C9: the base extractor tests no scheme. Whenever the header splits into a nonempty
  scheme and a nonempty parameter it returns both verbatim, whatever scheme its model was
  built with.
\<close>

theorem HTTPBase_call_no_scheme_check:
  assumes "get_authorization_scheme_param authorization = (schm, cred)"
    and "schm \<noteq> []" and "cred \<noteq> []"
  shows "HTTPBase_call self authorization = Inr (Some \<lparr>scheme = schm, credentials = cred\<rparr>)"
  using assms split_scheme_truthy [OF assms(1,2)] by (simp add: HTTPBase_call_def)

theorem HTTPBase_call_no_scheme_check_witness:
  "HTTPBase_call \<lparr>model_scheme = ''basic'', scheme_name = ''HTTPBase'', realm = None,
       auto_error = True\<rparr> (Some ''Whatever abc def'')
     = Inr (Some \<lparr>scheme = ''Whatever'', credentials = ''abc def''\<rparr>)"
proof -
  have h: "get_authorization_scheme_param (Some ''Whatever abc def'') = (''Whatever'', ''abc def'')"
    by code_simp
  show ?thesis
    using HTTPBase_call_no_scheme_check [OF h] by simp
qed

subsection \<open>The Basic family\<close>

lemma str_partition_no_separator:
  "sep \<notin> set s \<Longrightarrow> str_partition sep s = (s, [], [])"
  by (simp add: str_partition_def)

lemma decode_basic_param_malformed:
  assumes "b64decode p = Inl ea
       \<or> (b64decode p = Inr raw \<and> decode_ascii raw = Inl eb)
       \<or> (b64decode p = Inr raw \<and> decode_ascii raw = Inr data \<and> CHR '':'' \<notin> set data)"
  shows "decode_basic_param self p = Inl (invalid_user_credentials_exc self)"
  using assms by (auto simp: decode_basic_param_def str_partition_no_separator)

lemma decode_basic_param_Inl:
  "decode_basic_param self p = Inl e \<Longrightarrow> e = invalid_user_credentials_exc self"
  by (auto simp: decode_basic_param_def split: sum.splits prod.splits if_splits)

lemma basic_scheme_matches:
  assumes "get_authorization_scheme_param authorization = (schm, p)"
    and "lower schm = ''basic''"
  shows "get_http_basic_authorization_credentials self authorization
     = (case decode_basic_param self p of Inl exc \<Rightarrow> Inl exc | Inr pair \<Rightarrow> Inr (Some pair))"
  using assms lower_basic_truthy [OF assms]
  by (simp add: get_http_basic_authorization_credentials_def)

lemma basic_scheme_differs:
  assumes "get_authorization_scheme_param authorization = (schm, p)"
    and "\<not> truthy authorization \<or> lower schm \<noteq> ''basic''"
  shows "get_http_basic_authorization_credentials self authorization
     = (if auto_error self
        then Inl \<lparr>status_code = HTTP_401_UNAUTHORIZED, detail = ''Not authenticated'',
                  headers = Some (unauthorized_headers self)\<rparr>
        else Inr None)"
  using assms by (auto simp: get_http_basic_authorization_credentials_def)

lemma basic_credentials_Inl:
  assumes "get_http_basic_authorization_credentials self authorization = Inl e"
  shows "status_code e = HTTP_401_UNAUTHORIZED \<and> headers e = Some (unauthorized_headers self)"
proof -
  obtain schm p where sp: "get_authorization_scheme_param authorization = (schm, p)"
    by (cases "get_authorization_scheme_param authorization")
  show ?thesis
  proof (cases "\<not> truthy authorization \<or> lower schm \<noteq> ''basic''")
    case True
    from assms show ?thesis
      unfolding basic_scheme_differs [OF sp True] by (auto split: if_splits)
  next
    case False
    then have "lower schm = ''basic''" by simp
    from assms obtain exc where "decode_basic_param self p = Inl exc" and "e = exc"
      unfolding basic_scheme_matches [OF sp \<open>lower schm = ''basic''\<close>]
      by (auto split: sum.splits)
    then have "e = invalid_user_credentials_exc self"
      by (auto dest: decode_basic_param_Inl)
    then show ?thesis
      by (simp add: invalid_user_credentials_exc_def)
  qed
qed

lemma HTTPBasic_call_Inl_iff:
  "HTTPBasic_call self authorization = Inl e
     \<longleftrightarrow> get_http_basic_authorization_credentials self authorization = Inl e"
  by (auto simp: HTTPBasic_call_def split: sum.splits option.splits prod.splits)

lemma HTTPBasicClientCredentials_call_Inl_iff:
  "HTTPBasicClientCredentials_call self authorization = Inl e
     \<longleftrightarrow> get_http_basic_authorization_credentials self authorization = Inl e"
  by (auto simp: HTTPBasicClientCredentials_call_def split: sum.splits option.splits prod.splits)

lemma HTTPBasic_call_None_iff:
  "HTTPBasic_call self authorization = Inr None
     \<longleftrightarrow> get_http_basic_authorization_credentials self authorization = Inr None"
  by (auto simp: HTTPBasic_call_def split: sum.splits option.splits prod.splits)

lemma HTTPBasicClientCredentials_call_None_iff:
  "HTTPBasicClientCredentials_call self authorization = Inr None
     \<longleftrightarrow> get_http_basic_authorization_credentials self authorization = Inr None"
  by (auto simp: HTTPBasicClientCredentials_call_def split: sum.splits option.splits prod.splits)

lemma basic_family_malformed:
  assumes "get_authorization_scheme_param authorization = (schm, p)"
    and "lower schm = ''basic''"
    and "b64decode p = Inl ea
       \<or> (b64decode p = Inr raw \<and> decode_ascii raw = Inl eb)
       \<or> (b64decode p = Inr raw \<and> decode_ascii raw = Inr data \<and> CHR '':'' \<notin> set data)"
  shows "get_http_basic_authorization_credentials self authorization
     = Inl (invalid_user_credentials_exc self)"
  unfolding basic_scheme_matches [OF assms(1,2)]
  by (simp add: decode_basic_param_malformed [OF assms(3)])

text \<open>
  Claim C2: when the header's scheme, lowered, is \<^verbatim>\<open>basic\<close> and its parameter fails to
  decode as Base64, or decodes to bytes that are not ASCII text, or decodes to text without
  a colon, both Basic-family extractors raise one and the same exception: status 401,
  detail "Invalid authentication credentials" and the \<^verbatim>\<open>WWW-Authenticate\<close> challenge.
  It is neither the "Not authenticated" exception of a missing header or a foreign scheme
  nor the \<^verbatim>\<open>None\<close> result.
\<close>

theorem malformed_payload_single_outcome:
  assumes "get_authorization_scheme_param authorization = (schm, p)"
    and "lower schm = ''basic''"
    and "b64decode p = Inl ea
       \<or> (b64decode p = Inr raw \<and> decode_ascii raw = Inl eb)
       \<or> (b64decode p = Inr raw \<and> decode_ascii raw = Inr data \<and> CHR '':'' \<notin> set data)"
  shows "HTTPBasic_call self authorization
       = Inl \<lparr>status_code = HTTP_401_UNAUTHORIZED,
              detail = ''Invalid authentication credentials'',
              headers = Some (unauthorized_headers self)\<rparr>
     \<and> HTTPBasicClientCredentials_call self authorization
       = Inl \<lparr>status_code = HTTP_401_UNAUTHORIZED,
              detail = ''Invalid authentication credentials'',
              headers = Some (unauthorized_headers self)\<rparr>
     \<and> HTTPBasic_call self authorization
       \<noteq> Inl \<lparr>status_code = HTTP_401_UNAUTHORIZED, detail = ''Not authenticated'',
              headers = Some (unauthorized_headers self)\<rparr>
     \<and> HTTPBasicClientCredentials_call self authorization
       \<noteq> Inl \<lparr>status_code = HTTP_401_UNAUTHORIZED, detail = ''Not authenticated'',
              headers = Some (unauthorized_headers self)\<rparr>
     \<and> HTTPBasic_call self authorization \<noteq> Inr None
     \<and> HTTPBasicClientCredentials_call self authorization \<noteq> Inr None"
  using basic_family_malformed [OF assms, of self]
  by (simp add: HTTPBasic_call_Inl_iff HTTPBasicClientCredentials_call_Inl_iff
      HTTPBasic_call_None_iff HTTPBasicClientCredentials_call_None_iff
      invalid_user_credentials_exc_def)

theorem malformed_payload_single_outcome_witness:
  \<open>HTTPBasic_call \<lparr>model_scheme = ''basic'', scheme_name = ''HTTPBasic'',
       realm = Some ''users'', auto_error = True\<rparr> (Some ''Basic invalid_base64'')
     = Inl \<lparr>status_code = 401, detail = ''Invalid authentication credentials'',
            headers = Some [(''WWW-Authenticate'', ''Basic realm="users"'')]\<rparr>
   \<and> HTTPBasic_call \<lparr>model_scheme = ''basic'', scheme_name = ''HTTPBasic'',
       realm = Some ''users'', auto_error = True\<rparr> (Some ''Basic /w=='')
     = Inl \<lparr>status_code = 401, detail = ''Invalid authentication credentials'',
            headers = Some [(''WWW-Authenticate'', ''Basic realm="users"'')]\<rparr>
   \<and> HTTPBasicClientCredentials_call \<lparr>model_scheme = ''basic'', scheme_name = ''HTTPBasic'',
       realm = Some ''users'', auto_error = True\<rparr> (Some ''Basic dGVzdA=='')
     = Inl \<lparr>status_code = 401, detail = ''Invalid authentication credentials'',
            headers = Some [(''WWW-Authenticate'', ''Basic realm="users"'')]\<rparr>\<close>
proof -
  let ?self = "\<lparr>model_scheme = ''basic'', scheme_name = ''HTTPBasic'',
       realm = Some ''users'', auto_error = True\<rparr>"
  have low: "lower ''Basic'' = ''basic''"
    by code_simp
  have s1: "get_authorization_scheme_param (Some ''Basic invalid_base64'')
      = (''Basic'', ''invalid_base64'')"
    by code_simp
  have s2: "get_authorization_scheme_param (Some ''Basic /w=='') = (''Basic'', ''/w=='')"
    by code_simp
  have s3: "get_authorization_scheme_param (Some ''Basic dGVzdA=='') = (''Basic'', ''dGVzdA=='')"
    by code_simp
  have d1: "b64decode ''invalid_base64'' = Inl BinasciiError"
    by code_simp
  have d2: "b64decode ''/w=='' = Inr [255] \<and> decode_ascii [255] = Inl UnicodeDecodeError"
    by code_simp
  have d3: "b64decode ''dGVzdA=='' = Inr [116, 101, 115, 116]
      \<and> decode_ascii [116, 101, 115, 116] = Inr ''test'' \<and> CHR '':'' \<notin> set ''test''"
    by code_simp
  have c1: "b64decode ''invalid_base64'' = Inl BinasciiError
       \<or> (b64decode ''invalid_base64'' = Inr [] \<and> decode_ascii [] = Inl UnicodeDecodeError)
       \<or> (b64decode ''invalid_base64'' = Inr [] \<and> decode_ascii [] = Inr []
            \<and> CHR '':'' \<notin> set [])"
    using d1 by simp
  have c2: "b64decode ''/w=='' = Inl BinasciiError
       \<or> (b64decode ''/w=='' = Inr [255] \<and> decode_ascii [255] = Inl UnicodeDecodeError)
       \<or> (b64decode ''/w=='' = Inr [255] \<and> decode_ascii [255] = Inr []
            \<and> CHR '':'' \<notin> set [])"
    using d2 by simp
  have c3: "b64decode ''dGVzdA=='' = Inl BinasciiError
       \<or> (b64decode ''dGVzdA=='' = Inr [116, 101, 115, 116]
            \<and> decode_ascii [116, 101, 115, 116] = Inl UnicodeDecodeError)
       \<or> (b64decode ''dGVzdA=='' = Inr [116, 101, 115, 116]
            \<and> decode_ascii [116, 101, 115, 116] = Inr ''test''
            \<and> CHR '':'' \<notin> set ''test'')"
    using d3 by simp
  show ?thesis
    using malformed_payload_single_outcome [OF s1 low c1, of ?self]
      malformed_payload_single_outcome [OF s2 low c2, of ?self]
      malformed_payload_single_outcome [OF s3 low c3, of ?self]
    by (simp add: HTTP_401_UNAUTHORIZED_def unauthorized_headers_def truthy_def)
qed

text \<open>
  Claim C10: in the Basic family \<^verbatim>\<open>auto_error=False\<close> turns only the missing header and
  the foreign scheme into \<^verbatim>\<open>None\<close>. When the scheme, lowered, is \<^verbatim>\<open>basic\<close> and the
  parameter fails to decode (bad Base64, bytes that are not ASCII text, or no colon), the
  status 401 exception with detail "Invalid authentication credentials" is raised all the
  same.
\<close>

theorem auto_error_off_keeps_malformed_failure:
  assumes "\<not> auto_error self"
    and "get_authorization_scheme_param authorization = (schm, p)"
  shows "(\<not> truthy authorization \<or> lower schm \<noteq> ''basic'' \<longrightarrow>
            HTTPBasic_call self authorization = Inr None
          \<and> HTTPBasicClientCredentials_call self authorization = Inr None)
       \<and> (lower schm = ''basic''
          \<and> (b64decode p = Inl ea
             \<or> (b64decode p = Inr raw \<and> decode_ascii raw = Inl eb)
             \<or> (b64decode p = Inr raw \<and> decode_ascii raw = Inr data
                  \<and> CHR '':'' \<notin> set data)) \<longrightarrow>
            HTTPBasic_call self authorization
              = Inl \<lparr>status_code = HTTP_401_UNAUTHORIZED,
                     detail = ''Invalid authentication credentials'',
                     headers = Some (unauthorized_headers self)\<rparr>
          \<and> HTTPBasicClientCredentials_call self authorization
              = Inl \<lparr>status_code = HTTP_401_UNAUTHORIZED,
                     detail = ''Invalid authentication credentials'',
                     headers = Some (unauthorized_headers self)\<rparr>)"
proof (intro conjI impI)
  assume "\<not> truthy authorization \<or> lower schm \<noteq> ''basic''"
  then have "get_http_basic_authorization_credentials self authorization = Inr None"
    using assms by (simp add: basic_scheme_differs)
  then show "HTTPBasic_call self authorization = Inr None"
    and "HTTPBasicClientCredentials_call self authorization = Inr None"
    by (simp_all add: HTTPBasic_call_None_iff HTTPBasicClientCredentials_call_None_iff)
next
  assume m: "lower schm = ''basic''
          \<and> (b64decode p = Inl ea
             \<or> (b64decode p = Inr raw \<and> decode_ascii raw = Inl eb)
             \<or> (b64decode p = Inr raw \<and> decode_ascii raw = Inr data
                  \<and> CHR '':'' \<notin> set data))"
  then have "get_http_basic_authorization_credentials self authorization
      = Inl (invalid_user_credentials_exc self)"
    using basic_family_malformed [OF assms(2), of ea raw eb data self] by blast
  then show "HTTPBasic_call self authorization
              = Inl \<lparr>status_code = HTTP_401_UNAUTHORIZED,
                     detail = ''Invalid authentication credentials'',
                     headers = Some (unauthorized_headers self)\<rparr>"
    and "HTTPBasicClientCredentials_call self authorization
              = Inl \<lparr>status_code = HTTP_401_UNAUTHORIZED,
                     detail = ''Invalid authentication credentials'',
                     headers = Some (unauthorized_headers self)\<rparr>"
    by (simp_all add: HTTPBasic_call_Inl_iff HTTPBasicClientCredentials_call_Inl_iff
        invalid_user_credentials_exc_def)
qed

theorem auto_error_off_keeps_malformed_failure_witness:
  "HTTPBasic_call \<lparr>model_scheme = ''basic'', scheme_name = ''HTTPBasic'', realm = None,
       auto_error = False\<rparr> (Some ''Bearer dGVzdDp0ZXN0'') = Inr None
   \<and> HTTPBasic_call \<lparr>model_scheme = ''basic'', scheme_name = ''HTTPBasic'', realm = None,
       auto_error = False\<rparr> (Some ''basic not-base64'')
     = Inl \<lparr>status_code = 401, detail = ''Invalid authentication credentials'',
            headers = Some [(''WWW-Authenticate'', ''Basic'')]\<rparr>"
proof -
  let ?self = "\<lparr>model_scheme = ''basic'', scheme_name = ''HTTPBasic'', realm = None,
       auto_error = False\<rparr>"
  have off: "\<not> auto_error ?self"
    by simp
  have s1: "get_authorization_scheme_param (Some ''Bearer dGVzdDp0ZXN0'')
      = (''Bearer'', ''dGVzdDp0ZXN0'')"
    by code_simp
  have l1: "lower ''Bearer'' \<noteq> ''basic''"
    by code_simp
  have s2: "get_authorization_scheme_param (Some ''basic not-base64'')
      = (''basic'', ''not-base64'')"
    by code_simp
  have l2: "lower ''basic'' = ''basic''"
    by code_simp
  have d2: "b64decode ''not-base64'' = Inl BinasciiError"
    by code_simp
  show ?thesis
    using auto_error_off_keeps_malformed_failure [OF off s1] l1
      auto_error_off_keeps_malformed_failure [OF off s2, of BinasciiError] l2 d2
    by (simp add: HTTP_401_UNAUTHORIZED_def unauthorized_headers_def truthy_def)
qed

text \<open>
  Claim C7, as stated, fails for a realm configured as the empty string: the test
  \<^verbatim>\<open>if self.realm\<close> is false for it, and the challenge is \<^verbatim>\<open>Basic\<close>, not
  \<^verbatim>\<open>Basic realm=""\<close>.
\<close>

theorem empty_realm_counterexample:
  \<open>HTTPBasic_call \<lparr>model_scheme = ''basic'', scheme_name = ''HTTPBasic'', realm = Some [],
       auto_error = True\<rparr> None
     = Inl \<lparr>status_code = 401, detail = ''Not authenticated'',
            headers = Some [(''WWW-Authenticate'', ''Basic'')]\<rparr>
   \<and> HTTPBasic_call \<lparr>model_scheme = ''basic'', scheme_name = ''HTTPBasic'', realm = Some [],
       auto_error = True\<rparr> None
     \<noteq> Inl \<lparr>status_code = 401, detail = ''Not authenticated'',
            headers = Some [(''WWW-Authenticate'', ''Basic realm=""'')]\<rparr>\<close>
  by (simp add: HTTPBasic_call_def get_http_basic_authorization_credentials_def split_absent
      truthy_def unauthorized_headers_def HTTP_401_UNAUTHORIZED_def)

text \<open>
  Claim C7, amended: every exception a Basic-family extractor raises, for a missing header,
  a foreign scheme or a malformed parameter, has status 401 and carries exactly one header,
  \<^verbatim>\<open>WWW-Authenticate\<close>, whose value is \<^verbatim>\<open>Basic realm="<realm>"\<close> when a non-empty realm
  was configured and \<^verbatim>\<open>Basic\<close> when the realm is \<^verbatim>\<open>None\<close> or the empty string.
\<close>

theorem basic_failures_carry_challenge:
  assumes "HTTPBasic_call self authorization = Inl e
       \<or> HTTPBasicClientCredentials_call self authorization = Inl e"
  shows \<open>status_code e = HTTP_401_UNAUTHORIZED
     \<and> headers e = Some [(''WWW-Authenticate'',
          (case realm self of
             None \<Rightarrow> ''Basic''
           | Some r \<Rightarrow> if r = [] then ''Basic'' else ''Basic realm="'' @ r @ ''"''))]\<close>
proof -
  from assms have "get_http_basic_authorization_credentials self authorization = Inl e"
    by (simp add: HTTPBasic_call_Inl_iff HTTPBasicClientCredentials_call_Inl_iff)
  then have "status_code e = HTTP_401_UNAUTHORIZED
      \<and> headers e = Some (unauthorized_headers self)"
    by (rule basic_credentials_Inl)
  then show ?thesis
    by (simp add: unauthorized_headers_def truthy_def split: option.splits)
qed

theorem basic_failures_carry_challenge_witness:
  \<open>status_code \<lparr>status_code = 401, detail = ''Invalid authentication credentials'',
          headers = Some [(''WWW-Authenticate'', ''Basic realm="users"'')]\<rparr> = 401
   \<and> headers \<lparr>status_code = 401, detail = ''Invalid authentication credentials'',
          headers = Some [(''WWW-Authenticate'', ''Basic realm="users"'')]\<rparr>
       = Some [(''WWW-Authenticate'', ''Basic realm="users"'')]
   \<and> HTTPBasic_call \<lparr>model_scheme = ''basic'', scheme_name = ''HTTPBasic'',
          realm = Some ''users'', auto_error = True\<rparr> (Some ''Basic dGVzdA=='')
       = Inl \<lparr>status_code = 401, detail = ''Invalid authentication credentials'',
          headers = Some [(''WWW-Authenticate'', ''Basic realm="users"'')]\<rparr>\<close>
proof -
  have c: \<open>HTTPBasic_call \<lparr>model_scheme = ''basic'', scheme_name = ''HTTPBasic'',
          realm = Some ''users'', auto_error = True\<rparr> (Some ''Basic dGVzdA=='')
       = Inl \<lparr>status_code = 401, detail = ''Invalid authentication credentials'',
          headers = Some [(''WWW-Authenticate'', ''Basic realm="users"'')]\<rparr>\<close>
    by code_simp
  show ?thesis
    using basic_failures_carry_challenge [OF disjI1, OF c] c
    by (simp add: HTTP_401_UNAUTHORIZED_def)
qed

subsection \<open>The Base64 round trip\<close>

lemma sextet_less: "take_bit 6 x = (x :: byte) \<Longrightarrow> unat x < 64"
proof -
  assume "take_bit 6 x = x"
  then have "unat x = take_bit 6 (unat x)"
    by (metis unsigned_take_bit_eq)
  moreover have "take_bit 6 (unat x) < (2::nat) ^ 6"
    by (rule take_bit_nat_less_exp)
  ultimately show "unat x < 64"
    by simp
qed

lemma char_of_eq_pad: "(char_of (n::nat) = CHR ''='') = (n mod 256 = 61)"
  by (simp add: char_of_eq_iff take_bit_eq_mod)

lemma word_of_unat: "unat (x :: byte) = n \<Longrightarrow> x = of_nat n"
  by auto

lemma table_inv_a2b:
  assumes "unat (x :: byte) < 64"
  shows "table_a2b_base64 (table_b2a_base64 x) = Some x"
proof -
  consider "unat x < 26" | "26 \<le> unat x" "unat x < 52" | "52 \<le> unat x" "unat x < 62"
    | "unat x = 62" | "unat x = 63"
    using assms by linarith
  then show ?thesis
  proof cases
    case 1
    then show ?thesis
      by (simp add: table_a2b_base64_def table_b2a_base64_def Let_def del: char_of_nat)
  next
    case 2
    then show ?thesis
      by (simp add: table_a2b_base64_def table_b2a_base64_def Let_def del: char_of_nat)
  next
    case 3
    define m where "m = unat x - 4"
    have m: "48 \<le> m" "m \<le> 57" "m + 4 = unat x"
      using 3 by (simp_all add: m_def)
    have "table_b2a_base64 x = char_of m"
      using 3 by (simp add: table_b2a_base64_def Let_def m_def del: char_of_nat)
    moreover have "table_a2b_base64 (char_of m) = Some (of_nat (m + 4))"
      using m(1,2) by (simp add: table_a2b_base64_def Let_def del: char_of_nat)
    ultimately show ?thesis
      using m(3) by simp
  next
    case 4
    then have "x = 62" by (auto dest: word_of_unat)
    then show ?thesis by (simp add: table_a2b_base64_def table_b2a_base64_def)
  next
    case 5
    then have "x = 63" by (auto dest: word_of_unat)
    then show ?thesis by (simp add: table_a2b_base64_def table_b2a_base64_def)
  qed
qed

lemma table_b2a_ascii:
  assumes "unat (x :: byte) < 64"
  shows "(of_char (table_b2a_base64 x) :: nat) < 128"
proof -
  have "unat x - 4 < 128"
    using assms by simp
  then show ?thesis
    using assms by (simp add: table_b2a_base64_def Let_def del: char_of_nat)
qed

lemma table_b2a_not_pad:
  assumes "unat (x :: byte) < 64"
  shows "table_b2a_base64 x \<noteq> CHR ''=''"
proof -
  have "unat x < 62 \<Longrightarrow> unat x - 4 \<noteq> 61"
    by simp
  then show ?thesis
    using assms by (simp add: table_b2a_base64_def Let_def char_of_eq_pad del: char_of_nat)
qed

lemma and_3: "(a :: byte) AND 3 = take_bit 2 a"
  by (simp add: take_bit_eq_mask mask_eq_exp_minus_1)

lemma and_15: "(a :: byte) AND 15 = take_bit 4 a"
  by (simp add: take_bit_eq_mask mask_eq_exp_minus_1)

lemma and_63: "(a :: byte) AND 63 = take_bit 6 a"
  by (simp add: take_bit_eq_mask mask_eq_exp_minus_1)

lemma Suc_Suc_diff_2: "2 \<le> n \<Longrightarrow> Suc (Suc (n - 2)) = n"
  by simp

lemma join_first:
  "push_bit 2 (drop_bit 2 a) OR drop_bit 4 (push_bit 4 (a AND 3) OR drop_bit 4 b) = (a :: byte)"
proof (rule bit_word_eqI)
  fix n
  assume "n < LENGTH(8)"
  then show "bit (push_bit 2 (drop_bit 2 a) OR drop_bit 4 (push_bit 4 (a AND 3) OR drop_bit 4 b)) n
      = bit a n"
    by (cases "2 \<le> n") (auto simp: and_3 bit_simps Suc_Suc_diff_2)
qed

lemma join_second:
  "push_bit 4 ((push_bit 4 (a AND 3) OR drop_bit 4 b) AND 15)
     OR drop_bit 2 (push_bit 2 (b AND 15) OR drop_bit 6 c) = (b :: byte)"
  by (rule bit_word_eqI) (auto simp: and_3 and_15 bit_simps Suc_Suc_diff_2)

lemma join_third:
  "push_bit 6 ((push_bit 2 (b AND 15) OR drop_bit 6 c) AND 3) OR (c AND 63) = (c :: byte)"
  by (rule bit_word_eqI) (auto simp: and_3 and_15 and_63 bit_simps Suc_Suc_diff_2)

lemma join_second_tail:
  "push_bit 4 ((push_bit 4 (a AND 3) OR drop_bit 4 b) AND 15)
     OR drop_bit 2 (push_bit 2 (b AND 15)) = (b :: byte)"
  using join_second [of a b 0] by simp

lemma join_first_tail:
  "push_bit 2 (drop_bit 2 a) OR drop_bit 4 (push_bit 4 (a AND 3)) = (a :: byte)"
  using join_first [of a 0] by simp

lemma sextet_1: "unat (drop_bit 2 (a :: byte)) < 64"
  by (rule sextet_less, rule bit_word_eqI) (auto simp: bit_simps dest: bit_imp_le_length)

lemma sextet_2: "unat (push_bit 4 ((a :: byte) AND 3) OR drop_bit 4 b) < 64"
  by (rule sextet_less, rule bit_word_eqI) (auto simp: and_3 bit_simps dest: bit_imp_le_length)

lemma sextet_3: "unat (push_bit 2 ((b :: byte) AND 15) OR drop_bit 6 c) < 64"
  by (rule sextet_less, rule bit_word_eqI) (auto simp: and_15 bit_simps dest: bit_imp_le_length)

lemma sextet_4: "unat ((c :: byte) AND 63) < 64"
  by (rule sextet_less, rule bit_word_eqI) (auto simp: and_63 bit_simps)

lemma sextet_2_tail: "unat (push_bit 4 ((a :: byte) AND 3)) < 64"
  using sextet_2 [of a 0] by simp

lemma sextet_3_tail: "unat (push_bit 2 ((b :: byte) AND 15)) < 64"
  using sextet_3 [of b 0] by simp

lemma loop_char:
  assumes "unat (x :: byte) < 64"
  shows "a2b_base64_loop quad_pos leftchar pads (table_b2a_base64 x # cs) =
     (if quad_pos = 0 then a2b_base64_loop 1 x 0 cs
      else if quad_pos = 1 then
        map_option ((#) (push_bit 2 leftchar OR drop_bit 4 x)) (a2b_base64_loop 2 (x AND 0x0f) 0 cs)
      else if quad_pos = 2 then
        map_option ((#) (push_bit 4 leftchar OR drop_bit 2 x)) (a2b_base64_loop 3 (x AND 0x03) 0 cs)
      else map_option ((#) (push_bit 6 leftchar OR x)) (a2b_base64_loop 0 0 0 cs))"
  using assms by (simp add: table_inv_a2b table_b2a_not_pad)

lemma loop_pad:
  "a2b_base64_loop quad_pos leftchar pads (CHR ''='' # cs) =
     (if quad_pos \<ge> 2 then
        (if quad_pos + (pads + 1) \<ge> 4 then Some []
         else a2b_base64_loop quad_pos leftchar (pads + 1) cs)
      else a2b_base64_loop quad_pos leftchar pads cs)"
  by simp

lemma loop_quad:
  assumes "unat (s1 :: byte) < 64" "unat (s2 :: byte) < 64" "unat (s3 :: byte) < 64"
    "unat (s4 :: byte) < 64"
  shows "a2b_base64_loop 0 leftchar pads
           ([table_b2a_base64 s1, table_b2a_base64 s2, table_b2a_base64 s3, table_b2a_base64 s4]
            @ cs) =
         map_option (\<lambda>r. (push_bit 2 s1 OR drop_bit 4 s2)
                        # (push_bit 4 (s2 AND 15) OR drop_bit 2 s3)
                        # (push_bit 6 (s3 AND 3) OR s4) # r)
           (a2b_base64_loop 0 0 0 cs)"
  by (simp del: a2b_base64_loop.simps add: loop_char assms option.map_comp comp_def)

lemma loop_triple_pad:
  assumes "unat (s1 :: byte) < 64" "unat (s2 :: byte) < 64" "unat (s3 :: byte) < 64"
  shows "a2b_base64_loop 0 leftchar pads
           [table_b2a_base64 s1, table_b2a_base64 s2, table_b2a_base64 s3, CHR ''=''] =
         Some [push_bit 2 s1 OR drop_bit 4 s2, push_bit 4 (s2 AND 15) OR drop_bit 2 s3]"
  by (simp del: a2b_base64_loop.simps add: loop_char loop_pad assms)

lemma loop_pair_pad:
  assumes "unat (s1 :: byte) < 64" "unat (s2 :: byte) < 64"
  shows "a2b_base64_loop 0 leftchar pads
           [table_b2a_base64 s1, table_b2a_base64 s2, CHR ''='', CHR ''=''] =
         Some [push_bit 2 s1 OR drop_bit 4 s2]"
  by (simp del: a2b_base64_loop.simps add: loop_char loop_pad assms)

lemma a2b_base64_loop_b64encode:
  "a2b_base64_loop 0 leftchar pads (b64encode bs) = Some bs"
proof (induction bs arbitrary: leftchar pads rule: b64encode.induct)
  case 1
  show ?case by simp
next
  case (2 a)
  show ?case
    unfolding b64encode.simps
    by (simp only: loop_pair_pad [OF sextet_1 sextet_2_tail] join_first_tail)
next
  case (3 a b)
  show ?case
    unfolding b64encode.simps
    by (simp only: loop_triple_pad [OF sextet_1 sextet_2 sextet_3_tail] join_first
        join_second_tail)
next
  case (4 a b c rest)
  show ?case
    unfolding b64encode.simps
    by (simp only: loop_quad [OF sextet_1 sextet_2 sextet_3 sextet_4] join_first join_second
        join_third "4.IH" option.map)
qed

lemma a2b_base64_b64encode: "a2b_base64 (b64encode bs) = Inr bs"
  by (simp add: a2b_base64_def a2b_base64_loop_b64encode)

lemma b64encode_ascii: "list_all (\<lambda>c. (of_char c :: nat) < 128) (b64encode bs)"
  by (induction bs rule: b64encode.induct)
    (simp_all add: table_b2a_ascii sextet_1 sextet_2 sextet_3 sextet_4 sextet_2_tail
      sextet_3_tail del: push_bit_and)

lemma b64decode_b64encode: "b64decode (b64encode bs) = Inr bs"
  by (simp add: b64decode_def b64encode_ascii a2b_base64_b64encode)

lemma unat_of_char: "unat (of_char c :: byte) = (of_char c :: nat)"
proof -
  have "unat (of_nat (of_char c :: nat) :: byte) = (of_char c :: nat) mod 2 ^ LENGTH(8)"
    by (rule unat_of_nat)
  then show ?thesis
    by (simp add: of_nat_of_char)
qed

lemma decode_ascii_encode_latin1:
  assumes "is_ascii s"
  shows "decode_ascii (encode_latin1 s) = Inr s"
proof -
  have "list_all (\<lambda>b. b < 128) (encode_latin1 s)"
    using assms
    by (simp add: is_ascii_def encode_latin1_def list_all_iff word_less_nat_alt unat_of_char)
  moreover have "map (\<lambda>b. char_of (unat b)) (encode_latin1 s) = s"
    by (simp add: encode_latin1_def unat_of_char comp_def)
  ultimately show ?thesis
    by (simp add: decode_ascii_def)
qed

lemma str_partition_first_separator:
  assumes "sep \<notin> set xs"
  shows "str_partition sep (xs @ sep # ys) = (xs, [sep], ys)"
proof -
  have "takeWhile (\<lambda>c. c \<noteq> sep) (xs @ sep # ys) = xs"
    using assms by (induction xs) auto
  moreover have "dropWhile (\<lambda>c. c \<noteq> sep) (xs @ sep # ys) = sep # ys"
    using assms by (induction xs) auto
  ultimately show ?thesis
    by (simp add: str_partition_def)
qed

lemma decode_basic_param_basic_token:
  assumes "is_ascii user" and "is_ascii pass" and "CHR '':'' \<notin> set user"
  shows "decode_basic_param self (basic_token user pass) = Inr (user, pass)"
proof -
  have "is_ascii (user @ '':'' @ pass)"
    using assms(1,2) by (simp add: is_ascii_def)
  then have "decode_ascii (encode_latin1 (user @ '':'' @ pass)) = Inr (user @ '':'' @ pass)"
    by (rule decode_ascii_encode_latin1)
  moreover have "str_partition CHR '':'' (user @ '':'' @ pass) = (user, '':'', pass)"
    using str_partition_first_separator [OF assms(3), of pass] by simp
  ultimately show ?thesis
    by (simp add: decode_basic_param_def basic_token_def b64decode_b64encode)
qed

lemma is_space_le: "is_space c \<Longrightarrow> (of_char c :: nat) \<le> 32"
  by (auto simp: is_space_def)

lemma table_b2a_not_space:
  assumes "unat (x :: byte) < 64"
  shows "\<not> is_space (table_b2a_base64 x)"
proof
  assume "is_space (table_b2a_base64 x)"
  then have "(of_char (table_b2a_base64 x) :: nat) \<le> 32"
    by (rule is_space_le)
  moreover have "52 \<le> unat x \<Longrightarrow> 43 \<le> unat x - 4"
    by simp
  ultimately show False
    using assms
    by (simp add: table_b2a_base64_def Let_def split: if_splits del: char_of_nat)
qed

lemma b64encode_no_space: "c \<in> set (b64encode bs) \<Longrightarrow> \<not> is_space c"
proof (induction bs rule: b64encode.induct)
  case 1
  then show ?case by simp
next
  case (2 a)
  have "\<not> is_space CHR ''=''" by (simp add: is_space_def)
  with 2 show ?case
    using table_b2a_not_space [OF sextet_1, of a] table_b2a_not_space [OF sextet_2_tail, of a]
    by (auto simp del: push_bit_and)
next
  case (3 a b)
  have "\<not> is_space CHR ''=''" by (simp add: is_space_def)
  with 3 show ?case
    using table_b2a_not_space [OF sextet_1, of a] table_b2a_not_space [OF sextet_2, of a b]
      table_b2a_not_space [OF sextet_3_tail, of b]
    by (auto simp del: push_bit_and)
next
  case (4 a b c' rest)
  then show ?case
    using table_b2a_not_space [OF sextet_1, of a] table_b2a_not_space [OF sextet_2, of a b]
      table_b2a_not_space [OF sextet_3, of b c'] table_b2a_not_space [OF sextet_4, of c']
    by (auto simp del: push_bit_and)
qed

lemma split_Basic_token:
  assumes "\<And>c. c \<in> set x \<Longrightarrow> \<not> is_space c"
  shows "get_authorization_scheme_param (Some (''Basic '' @ x)) = (''Basic'', x)"
proof -
  have "takeWhile (\<lambda>c. \<not> is_space c) (''Basic '' @ x) = ''Basic''"
    by (simp add: is_space_def)
  moreover have "dropWhile (\<lambda>c. \<not> is_space c) (''Basic '' @ x) = CHR '' '' # x"
    by (simp add: is_space_def)
  moreover have "dropWhile is_space (CHR '' '' # x) = x"
    using assms by (cases x) (simp_all add: is_space_def)
  ultimately show ?thesis
    by (simp add: get_authorization_scheme_param_def)
qed

lemma lower_Basic: "lower ''Basic'' = ''basic''"
  by code_simp

lemma basic_credentials_basic_token:
  assumes "is_ascii user" and "is_ascii pass" and "CHR '':'' \<notin> set user"
  shows "get_http_basic_authorization_credentials self
           (Some (''Basic '' @ basic_token user pass)) = Inr (Some (user, pass))"
proof -
  have "get_authorization_scheme_param (Some (''Basic '' @ basic_token user pass))
      = (''Basic'', basic_token user pass)"
    by (rule split_Basic_token) (simp add: basic_token_def b64encode_no_space)
  then show ?thesis
    by (simp add: get_http_basic_authorization_credentials_def lower_Basic truthy_def
        decode_basic_param_basic_token [OF assms])
qed

text \<open>
  Claim C5, as stated, fails for a user name that holds a colon, since the decoded text is
  cut at its first colon, and for text beyond ASCII, since the decoded bytes are read with
  the \<^verbatim>\<open>ascii\<close> codec.
\<close>

theorem round_trip_counterexample:
  "decode_basic_param \<lparr>model_scheme = ''basic'', scheme_name = ''HTTPBasic'', realm = None,
       auto_error = True\<rparr> (basic_token ''a:b'' ''c'') = Inr (''a'', ''b:c'')
   \<and> decode_basic_param \<lparr>model_scheme = ''basic'', scheme_name = ''HTTPBasic'', realm = None,
       auto_error = True\<rparr> (basic_token ''a:b'' ''c'') \<noteq> Inr (''a:b'', ''c'')
   \<and> decode_basic_param \<lparr>model_scheme = ''basic'', scheme_name = ''HTTPBasic'', realm = None,
       auto_error = True\<rparr> (basic_token [CHR 0xE9] ''x'')
     = Inl \<lparr>status_code = 401, detail = ''Invalid authentication credentials'',
            headers = Some [(''WWW-Authenticate'', ''Basic'')]\<rparr>"
  by code_simp

text \<open>
  Claim C5, amended: for every pair of ASCII strings (user, pass) in which user holds no
  colon, empty strings included, the Base64 encoding of \<^verbatim>\<open>user + ":" + pass\<close> is decoded
  by the Basic-auth decoder to exactly the pair (user, pass); sent as the header
  \<^verbatim>\<open>Basic <encoding>\<close>, it makes both Basic-family extractors return that pair.
\<close>

theorem basic_round_trip:
  assumes "is_ascii user" and "is_ascii pass" and "CHR '':'' \<notin> set user"
  shows "decode_basic_param self (basic_token user pass) = Inr (user, pass)
     \<and> HTTPBasic_call self (Some (''Basic '' @ basic_token user pass))
       = Inr (Some \<lparr>username = user, password = pass\<rparr>)
     \<and> HTTPBasicClientCredentials_call self (Some (''Basic '' @ basic_token user pass))
       = Inr (Some \<lparr>client_id = user, client_secret = pass\<rparr>)"
  using decode_basic_param_basic_token [OF assms, of self]
    basic_credentials_basic_token [OF assms, of self]
  by (simp add: HTTPBasic_call_def HTTPBasicClientCredentials_call_def)

theorem basic_round_trip_witness:
  "decode_basic_param \<lparr>model_scheme = ''basic'', scheme_name = ''HTTPBasic'', realm = None,
       auto_error = True\<rparr> ''dGVzdDp0ZXN0'' = Inr (''test'', ''test'')
   \<and> decode_basic_param \<lparr>model_scheme = ''basic'', scheme_name = ''HTTPBasic'', realm = None,
       auto_error = True\<rparr> ''Og=='' = Inr ([], [])
   \<and> HTTPBasic_call \<lparr>model_scheme = ''basic'', scheme_name = ''HTTPBasic'', realm = None,
       auto_error = True\<rparr> (Some ''Basic dGVzdDp0ZXN0'')
     = Inr (Some \<lparr>username = ''test'', password = ''test''\<rparr>)"
proof -
  let ?self = "\<lparr>model_scheme = ''basic'', scheme_name = ''HTTPBasic'', realm = None,
       auto_error = True\<rparr>"
  have a: "is_ascii ''test''" and n: "CHR '':'' \<notin> set ''test''"
    by code_simp+
  have a0: "is_ascii []" and n0: "CHR '':'' \<notin> set []"
    by (simp_all add: is_ascii_def)
  have t: "basic_token ''test'' ''test'' = ''dGVzdDp0ZXN0''"
    by code_simp
  have t0: "basic_token [] [] = ''Og==''"
    by code_simp
  show ?thesis
    using basic_round_trip [OF a a n, of ?self] basic_round_trip [OF a0 a0 n0, of ?self]
    by (simp add: t t0)
qed

end
